theory Spec2Isabelle
  imports Complex_Main
begin

unbundle bit_operations_syntax

section \<open>The low rank Trotter step of OpenFermion-Cirq\<close>

text \<open>
  A shallow embedding of \<^verbatim>\<open>openfermioncirq/trotter/algorithms/low_rank.py\<close>.
  Floating point numbers are read as exact reals and complex numbers. The gate
  constructors, \<^verbatim>\<open>swap_network\<close> and \<^verbatim>\<open>bogoliubov_transform\<close> belong to other
  modules: a call of one of them is recorded as a constructor holding the arguments
  of the call. The decomposition routines of OpenFermion are parameters of the
  constructor of the step.
\<close>

subsection \<open>Exceptions and arrays\<close>

datatype error = IndexError | ValueError | AttributeError | DecompositionError

text \<open>A two-dimensional numpy array is the list of its rows.\<close>

type_synonym 'a ndarray = "'a list list"

definition nrows :: "'a ndarray \<Rightarrow> nat" where
  "nrows A = length A"

definition ncols :: "'a ndarray \<Rightarrow> nat" where
  "ncols A = (case A of [] \<Rightarrow> 0 | r # _ \<Rightarrow> length r)"

text \<open>\<^verbatim>\<open>xs[j]\<close> on a Python list, for an index that comes from \<^verbatim>\<open>range\<close>.\<close>

definition list_index :: "'a list \<Rightarrow> nat \<Rightarrow> error + 'a" where
  "list_index xs j = (if j < length xs then Inr (xs ! j) else Inl IndexError)"

text \<open>\<^verbatim>\<open>A[p, q]\<close>: a negative index counts from the end, an index out of range raises.\<close>

definition wrap_index :: "nat \<Rightarrow> int \<Rightarrow> error + nat" where
  "wrap_index n i =
     (let j = (if i < 0 then int n + i else i)
      in if 0 \<le> j \<and> j < int n then Inr (nat j) else Inl IndexError)"

definition np_index :: "'a ndarray \<Rightarrow> int \<Rightarrow> int \<Rightarrow> error + 'a" where
  "np_index A p q =
     (case wrap_index (length A) p of
        Inl e \<Rightarrow> Inl e
      | Inr i \<Rightarrow> (case wrap_index (length (A ! i)) q of
                   Inl e \<Rightarrow> Inl e
                 | Inr j \<Rightarrow> Inr (A ! i ! j)))"

text \<open>\<^verbatim>\<open>numpy.identity(n)\<close>.\<close>

definition identity :: "nat \<Rightarrow> complex ndarray" where
  "identity n = map (\<lambda>i. map (\<lambda>j. if i = j then 1 else 0) [0..<n]) [0..<n]"

text \<open>\<^verbatim>\<open>A.T.conj()\<close>.\<close>

definition conj_transpose :: "complex ndarray \<Rightarrow> complex ndarray" where
  "conj_transpose A = map (map cnj) (transpose A)"

text \<open>\<^verbatim>\<open>numpy.dot(A, B)\<close> of two-dimensional arrays: the shapes must agree.\<close>

definition np_dot :: "complex ndarray \<Rightarrow> complex ndarray \<Rightarrow> error + complex ndarray" where
  "np_dot A B =
     (if ncols A \<noteq> nrows B then Inl ValueError
      else Inr (map (\<lambda>r. map (\<lambda>k. \<Sum>j\<leftarrow>[0..<nrows B]. r ! j * B ! j ! k) [0..<ncols B]) A))"

text \<open>\<^verbatim>\<open>A + B\<close> of two-dimensional arrays, with numpy's broadcasting of an axis of length 1.\<close>

definition broadcast_dim :: "nat \<Rightarrow> nat \<Rightarrow> error + nat" where
  "broadcast_dim a b =
     (if a = b then Inr a else if a = 1 then Inr b else if b = 1 then Inr a
      else Inl ValueError)"

definition broadcast_get :: "'a ndarray \<Rightarrow> nat \<Rightarrow> nat \<Rightarrow> 'a" where
  "broadcast_get A i j =
     A ! (if nrows A = 1 then 0 else i) ! (if ncols A = 1 then 0 else j)"

definition np_add :: "complex ndarray \<Rightarrow> complex ndarray \<Rightarrow> error + complex ndarray" where
  "np_add A B =
     (case broadcast_dim (nrows A) (nrows B) of
        Inl e \<Rightarrow> Inl e
      | Inr r \<Rightarrow> (case broadcast_dim (ncols A) (ncols B) of
                   Inl e \<Rightarrow> Inl e
                 | Inr c \<Rightarrow> Inr (map (\<lambda>i. map (\<lambda>j. broadcast_get A i j + broadcast_get B i j)
                                           [0..<c]) [0..<r])))"

text \<open>\<^verbatim>\<open>numpy.real(x * A)\<close>.\<close>

definition real_scaled :: "complex \<Rightarrow> complex ndarray \<Rightarrow> real ndarray" where
  "real_scaled x A = map (map (\<lambda>a. Re (x * a))) A"

subsection \<open>Gates and operation trees\<close>

text \<open>
  A gate with its angle, and the operation \<^verbatim>\<open>gate.on(*qubits)\<close>. A qubit argument is
  \<open>Some q\<close>, or \<open>None\<close> where the Python value \<^verbatim>\<open>None\<close> is passed.
\<close>

datatype gate =
    XXYYGate real
  | ControlledXXYYGate real
  | RotZGate real
  | Rot11Gate real
  | Rot111Gate real

datatype 'q operation = GateOperation gate "'q option list"

text \<open>
  What a generator yields, one value per \<^verbatim>\<open>yield\<close>: the call of \<^verbatim>\<open>swap_network\<close>
  (qubits, the operation function if one is given, the fermionic flag), the call of
  \<^verbatim>\<open>bogoliubov_transform\<close> (qubits, matrix), one operation, or a generator
  expression (its operations and the exception that ends it, if any, under the
  bindings at the \<^verbatim>\<open>yield\<close>).
\<close>

datatype 'q op_tree =
    SwapNetwork "'q list" "(int \<Rightarrow> int \<Rightarrow> 'q \<Rightarrow> 'q \<Rightarrow> error + 'q operation) option" bool
  | BogoliubovTransform "'q list" "complex ndarray"
  | Operation "'q operation"
  | GeneratorExp "'q operation list" "error option"

text \<open>
  A run of a generator: the values yielded, then either the exception that ended it
  or the state it reached.
\<close>

type_synonym ('o, 'a) gen = "'o list \<times> (error + 'a)"

definition yield :: "'o \<Rightarrow> ('o, unit) gen" where
  "yield x = ([x], Inr ())"

definition evaluate :: "error + 'a \<Rightarrow> ('o, 'a) gen" where
  "evaluate r = ([], r)"

definition then_gen :: "('o, 'a) gen \<Rightarrow> ('a \<Rightarrow> ('o, 'b) gen) \<Rightarrow> ('o, 'b) gen" where
  "then_gen g k =
     (case g of
        (xs, Inl e) \<Rightarrow> (xs, Inl e)
      | (xs, Inr a) \<Rightarrow> (case k a of (ys, r) \<Rightarrow> (xs @ ys, r)))"

text \<open>\<^verbatim>\<open>for p in ps: yield f(p)\<close>.\<close>

primrec yield_each :: "('i \<Rightarrow> error + 'o) \<Rightarrow> 'i list \<Rightarrow> ('o, unit) gen" where
  "yield_each f [] = ([], Inr ())"
| "yield_each f (p # ps) =
     then_gen (evaluate (f p)) (\<lambda>x. then_gen (yield x) (\<lambda>_. yield_each f ps))"

text \<open>A generator expression \<^verbatim>\<open>(f(p) for p in ps)\<close>, as one yielded value.\<close>

definition generator_exp :: "('i \<Rightarrow> error + 'q operation) \<Rightarrow> 'i list \<Rightarrow> 'q op_tree" where
  "generator_exp f ps =
     (case yield_each f ps of
        (xs, Inl e) \<Rightarrow> GeneratorExp xs (Some e)
      | (xs, Inr _) \<Rightarrow> GeneratorExp xs None)"

subsection \<open>The Hamiltonian and the decomposition\<close>

type_synonym tensor = "complex list list list list"

text \<open>
  Modelled from the spec: the Hamiltonian types are declared outside the sources (the
  type \<^verbatim>\<open>Hamiltonian\<close> of \<^verbatim>\<open>trotter_algorithm.py\<close> and the classes of OpenFermion). An
  interaction operator has a constant, a one-body tensor and a two-body tensor; a
  Hamiltonian of an unsupported type is not an interaction operator and has no
  attribute \<^verbatim>\<open>two_body_tensor\<close>.
\<close>

datatype hamiltonian =
    InteractionOperator real "complex ndarray" tensor
  | UnsupportedHamiltonian

definition two_body_tensor :: "hamiltonian \<Rightarrow> error + tensor" where
  "two_body_tensor h =
     (case h of InteractionOperator c t1 t2 \<Rightarrow> Inr t2 | UnsupportedHamiltonian \<Rightarrow> Inl AttributeError)"

definition one_body_tensor :: "hamiltonian \<Rightarrow> error + complex ndarray" where
  "one_body_tensor h =
     (case h of InteractionOperator c t1 t2 \<Rightarrow> Inr t1 | UnsupportedHamiltonian \<Rightarrow> Inl AttributeError)"

definition hamiltonian_constant :: "hamiltonian \<Rightarrow> error + real" where
  "hamiltonian_constant h =
     (case h of InteractionOperator c t1 t2 \<Rightarrow> Inr c | UnsupportedHamiltonian \<Rightarrow> Inl AttributeError)"

text \<open>
  \<^verbatim>\<open>low_rank_two_body_decomposition\<close> (two-body tensor, truncation threshold, final
  rank, spin basis) returns the eigenvalues, the one-body squares and the one-body
  correction (its fourth value is dropped), or raises;
  \<^verbatim>\<open>prepare_one_body_squared_evolution\<close> returns the density-density matrix and the
  basis change matrix of a one-body square, or raises.
\<close>

type_synonym decomposition_provider =
  "tensor \<Rightarrow> real option \<Rightarrow> int option \<Rightarrow> bool
     \<Rightarrow> error + (complex list \<times> complex ndarray list \<times> complex ndarray)"

type_synonym basis_preparer =
  "complex ndarray \<Rightarrow> error + (complex ndarray \<times> complex ndarray)"

record low_rank_trotter_algorithm =
  algorithm_truncation_threshold :: "real option"
  algorithm_final_rank :: "int option"
  algorithm_spin_basis :: bool

record low_rank_trotter_step =
  truncation_threshold :: "real option"
  final_rank :: "int option"
  eigenvalues :: "complex list"
  one_body_squares :: "complex ndarray list"
  one_body_coefficients :: "complex ndarray"
  constant_term :: real
  scaled_density_density_matrices :: "real ndarray list"
  basis_change_matrices :: "complex ndarray list"

text \<open>
  The loop of the constructor over \<^verbatim>\<open>range(len(self.eigenvalues))\<close>, appending to the
  two lists.
\<close>

primrec prepare_terms ::
  "nat list \<Rightarrow> basis_preparer \<Rightarrow> complex list \<Rightarrow> complex ndarray list
     \<Rightarrow> real ndarray list \<times> complex ndarray list
     \<Rightarrow> error + (real ndarray list \<times> complex ndarray list)" where
  "prepare_terms [] prepare evs squares acc = Inr acc"
| "prepare_terms (j # js) prepare evs squares acc =
     (case list_index squares j of
        Inl e \<Rightarrow> Inl e
      | Inr square \<Rightarrow>
          (case prepare square of
             Inl e \<Rightarrow> Inl e
           | Inr (density_density_matrix, basis_change_matrix) \<Rightarrow>
               prepare_terms js prepare evs squares
                 (fst acc @ [real_scaled (evs ! j) density_density_matrix],
                  snd acc @ [basis_change_matrix])))"

text \<open>
  \<^verbatim>\<open>LowRankTrotterStep.__init__\<close>. The initialiser of the base class, called last, is
  outside the sources and touches none of the fields below.
\<close>

definition LowRankTrotterStep_init ::
  "decomposition_provider \<Rightarrow> basis_preparer \<Rightarrow> hamiltonian \<Rightarrow> real option \<Rightarrow> int option
     \<Rightarrow> bool \<Rightarrow> error + low_rank_trotter_step" where
  "LowRankTrotterStep_init decompose prepare h threshold rank spin_basis =
     (case two_body_tensor h of
        Inl e \<Rightarrow> Inl e
      | Inr t2 \<Rightarrow>
     (case decompose t2 threshold rank spin_basis of
        Inl e \<Rightarrow> Inl e
      | Inr (evs, squares, one_body_correction) \<Rightarrow>
     (case one_body_tensor h of
        Inl e \<Rightarrow> Inl e
      | Inr t1 \<Rightarrow>
     (case np_add t1 one_body_correction of
        Inl e \<Rightarrow> Inl e
      | Inr coefficients \<Rightarrow>
     (case hamiltonian_constant h of
        Inl e \<Rightarrow> Inl e
      | Inr c \<Rightarrow>
     (case prepare_terms [0..<length evs] prepare evs squares ([], []) of
        Inl e \<Rightarrow> Inl e
      | Inr (sdd, bcm) \<Rightarrow>
          Inr \<lparr>truncation_threshold = threshold, final_rank = rank, eigenvalues = evs,
               one_body_squares = squares, one_body_coefficients = coefficients,
               constant_term = c, scaled_density_density_matrices = sdd,
               basis_change_matrices = bcm\<rparr>))))))"

text \<open>
  The two step classes share the fields; the factories return an object of one of
  them, and \<open>None\<close> is the value \<^verbatim>\<open>None\<close> of the return type
  \<^verbatim>\<open>Optional[TrotterStep]\<close>.
\<close>

datatype step_object =
    AsymmetricLowRankTrotterStep low_rank_trotter_step
  | ControlledAsymmetricLowRankTrotterStep low_rank_trotter_step

definition asymmetric ::
  "decomposition_provider \<Rightarrow> basis_preparer \<Rightarrow> low_rank_trotter_algorithm \<Rightarrow> hamiltonian
     \<Rightarrow> error + step_object option" where
  "asymmetric decompose prepare alg h =
     (case LowRankTrotterStep_init decompose prepare h (algorithm_truncation_threshold alg)
             (algorithm_final_rank alg) (algorithm_spin_basis alg) of
        Inl e \<Rightarrow> Inl e
      | Inr s \<Rightarrow> Inr (Some (AsymmetricLowRankTrotterStep s)))"

definition controlled_asymmetric ::
  "decomposition_provider \<Rightarrow> basis_preparer \<Rightarrow> low_rank_trotter_algorithm \<Rightarrow> hamiltonian
     \<Rightarrow> error + step_object option" where
  "controlled_asymmetric decompose prepare alg h =
     (case LowRankTrotterStep_init decompose prepare h (algorithm_truncation_threshold alg)
             (algorithm_final_rank alg) (algorithm_spin_basis alg) of
        Inl e \<Rightarrow> Inl e
      | Inr s \<Rightarrow> Inr (Some (ControlledAsymmetricLowRankTrotterStep s)))"

subsection \<open>The asymmetric step\<close>

text \<open>
  The functions handed to \<^verbatim>\<open>swap_network\<close>:
  \<^verbatim>\<open>lambda p, q, a, b: XXYYGate(duration=self.one_body_coefficients[p, q].real * time).on(a, b)\<close>
  and
  \<^verbatim>\<open>lambda p, q, a, b: cirq.Rot11Gate(rads=-2 * two_body_coefficients[p, q] * time).on(a, b)\<close>.
\<close>

definition one_body_operation ::
  "low_rank_trotter_step \<Rightarrow> real \<Rightarrow> int \<Rightarrow> int \<Rightarrow> 'q \<Rightarrow> 'q \<Rightarrow> error + 'q operation" where
  "one_body_operation s time p q a b =
     (case np_index (one_body_coefficients s) p q of
        Inl e \<Rightarrow> Inl e
      | Inr c \<Rightarrow> Inr (GateOperation (XXYYGate (Re c * time)) [Some a, Some b]))"

definition two_body_operation ::
  "real ndarray \<Rightarrow> real \<Rightarrow> int \<Rightarrow> int \<Rightarrow> 'q \<Rightarrow> 'q \<Rightarrow> error + 'q operation" where
  "two_body_operation two_body_coefficients time p q a b =
     (case np_index two_body_coefficients p q of
        Inl e \<Rightarrow> Inl e
      | Inr c \<Rightarrow> Inr (GateOperation (Rot11Gate (- 2 * c * time)) [Some a, Some b]))"

text \<open>The diagonal terms: \<^verbatim>\<open>cirq.RotZGate(rads=-A[p, p] * time).on(qubits[p])\<close>.\<close>

definition one_body_rotation ::
  "low_rank_trotter_step \<Rightarrow> real \<Rightarrow> 'q list \<Rightarrow> nat \<Rightarrow> error + 'q op_tree" where
  "one_body_rotation s time qubits p =
     (case np_index (one_body_coefficients s) (int p) (int p) of
        Inl e \<Rightarrow> Inl e
      | Inr c \<Rightarrow>
          Inr (Operation (GateOperation (RotZGate (- Re c * time)) [Some (qubits ! p)])))"

definition two_body_rotation ::
  "real ndarray \<Rightarrow> real \<Rightarrow> 'q list \<Rightarrow> nat \<Rightarrow> error + 'q op_tree" where
  "two_body_rotation two_body_coefficients time qubits p =
     (case np_index two_body_coefficients (int p) (int p) of
        Inl e \<Rightarrow> Inl e
      | Inr c \<Rightarrow> Inr (Operation (GateOperation (RotZGate (- c * time)) [Some (qubits ! p)])))"

text \<open>
  The loop over \<^verbatim>\<open>range(len(self.eigenvalues))\<close>; its state is the pair of
  \<^verbatim>\<open>qubits\<close> and \<^verbatim>\<open>prior_basis_matrix\<close>.
\<close>

primrec asymmetric_two_body ::
  "nat list \<Rightarrow> low_rank_trotter_step \<Rightarrow> real \<Rightarrow> nat \<Rightarrow> 'q list \<times> complex ndarray
     \<Rightarrow> ('q op_tree, 'q list \<times> complex ndarray) gen" where
  "asymmetric_two_body [] s time n_qubits st = ([], Inr st)"
| "asymmetric_two_body (j # js) s time n_qubits st =
     then_gen (evaluate (list_index (scaled_density_density_matrices s) j))
       (\<lambda>two_body_coefficients.
     then_gen (evaluate (list_index (basis_change_matrices s) j))
       (\<lambda>basis_change_matrix.
     then_gen (evaluate (np_dot (snd st) (conj_transpose basis_change_matrix)))
       (\<lambda>merged_basis_matrix.
     then_gen (yield (BogoliubovTransform (fst st) merged_basis_matrix))
       (\<lambda>_.
     then_gen (yield (SwapNetwork (fst st)
                        (Some (two_body_operation two_body_coefficients time)) False))
       (\<lambda>_.
     then_gen (yield_each (two_body_rotation two_body_coefficients time (rev (fst st)))
                 [0..<n_qubits])
       (\<lambda>_.
     asymmetric_two_body js s time n_qubits (rev (fst st), basis_change_matrix)))))))"

definition asymmetric_trotter_step ::
  "low_rank_trotter_step \<Rightarrow> 'q list \<Rightarrow> real \<Rightarrow> 'q option \<Rightarrow> ('q op_tree, unit) gen" where
  "asymmetric_trotter_step s qubits time control_qubit =
     (let n_qubits = length qubits in
      then_gen (yield (SwapNetwork qubits (Some (one_body_operation s time)) True))
        (\<lambda>_.
      then_gen (yield_each (one_body_rotation s time (rev qubits)) [0..<n_qubits])
        (\<lambda>_.
      then_gen (asymmetric_two_body [0..<length (eigenvalues s)] s time n_qubits
                  (rev qubits, identity n_qubits))
        (\<lambda>st.
      yield (BogoliubovTransform (fst st) (snd st))))))"

definition asymmetric_step_qubit_permutation ::
  "low_rank_trotter_step \<Rightarrow> 'q list \<Rightarrow> 'q option \<Rightarrow> 'q list \<times> 'q option" where
  "asymmetric_step_qubit_permutation s qubits control_qubit =
     (if int (length (eigenvalues s)) AND 1 \<noteq> 0 then (qubits, None)
      else (rev qubits, None))"

definition asymmetric_finish ::
  "low_rank_trotter_step \<Rightarrow> 'q list \<Rightarrow> int \<Rightarrow> 'q option \<Rightarrow> bool \<Rightarrow> 'q op_tree list" where
  "asymmetric_finish s qubits n_steps control_qubit omit_final_swaps =
     (if \<not> omit_final_swaps then
        (if n_steps AND 1 \<noteq> 0 then
           SwapNetwork qubits None True #
           (if int (length (eigenvalues s)) AND 1 \<noteq> 0 then [SwapNetwork qubits None False]
            else [])
         else [])
      else [])"

subsection \<open>The controlled step\<close>

definition controlled_one_body_operation ::
  "low_rank_trotter_step \<Rightarrow> real \<Rightarrow> 'q option \<Rightarrow> int \<Rightarrow> int \<Rightarrow> 'q \<Rightarrow> 'q
     \<Rightarrow> error + 'q operation" where
  "controlled_one_body_operation s time control_qubit p q a b =
     (case np_index (one_body_coefficients s) p q of
        Inl e \<Rightarrow> Inl e
      | Inr c \<Rightarrow>
          Inr (GateOperation (ControlledXXYYGate (Re c * time)) [control_qubit, Some a, Some b]))"

definition controlled_two_body_operation ::
  "real ndarray \<Rightarrow> real \<Rightarrow> 'q option \<Rightarrow> int \<Rightarrow> int \<Rightarrow> 'q \<Rightarrow> 'q \<Rightarrow> error + 'q operation" where
  "controlled_two_body_operation two_body_coefficients time control_qubit p q a b =
     (case np_index two_body_coefficients p q of
        Inl e \<Rightarrow> Inl e
      | Inr c \<Rightarrow>
          Inr (GateOperation (Rot111Gate (- 2 * c * time)) [control_qubit, Some a, Some b]))"

definition controlled_one_body_rotation ::
  "low_rank_trotter_step \<Rightarrow> real \<Rightarrow> 'q option \<Rightarrow> 'q list \<Rightarrow> nat \<Rightarrow> error + 'q operation" where
  "controlled_one_body_rotation s time control_qubit qubits j =
     (case np_index (one_body_coefficients s) (int j) (int j) of
        Inl e \<Rightarrow> Inl e
      | Inr c \<Rightarrow>
          Inr (GateOperation (Rot11Gate (- Re c * time)) [control_qubit, Some (qubits ! j)]))"

definition controlled_two_body_rotation ::
  "real ndarray \<Rightarrow> real \<Rightarrow> 'q option \<Rightarrow> 'q list \<Rightarrow> nat \<Rightarrow> error + 'q operation" where
  "controlled_two_body_rotation two_body_coefficients time control_qubit qubits k =
     (case np_index two_body_coefficients (int k) (int k) of
        Inl e \<Rightarrow> Inl e
      | Inr c \<Rightarrow> Inr (GateOperation (Rot11Gate (- c * time)) [control_qubit, Some (qubits ! k)]))"

primrec controlled_two_body ::
  "nat list \<Rightarrow> low_rank_trotter_step \<Rightarrow> real \<Rightarrow> 'q option \<Rightarrow> nat \<Rightarrow> 'q list \<times> complex ndarray
     \<Rightarrow> ('q op_tree, 'q list \<times> complex ndarray) gen" where
  "controlled_two_body [] s time control_qubit n_qubits st = ([], Inr st)"
| "controlled_two_body (j # js) s time control_qubit n_qubits st =
     then_gen (evaluate (list_index (scaled_density_density_matrices s) j))
       (\<lambda>two_body_coefficients.
     then_gen (evaluate (list_index (basis_change_matrices s) j))
       (\<lambda>basis_change_matrix.
     then_gen (evaluate (np_dot (snd st) (conj_transpose basis_change_matrix)))
       (\<lambda>merged_basis_matrix.
     then_gen (yield (BogoliubovTransform (fst st) merged_basis_matrix))
       (\<lambda>_.
     then_gen (yield (SwapNetwork (fst st)
                        (Some (controlled_two_body_operation two_body_coefficients time
                                 control_qubit)) False))
       (\<lambda>_.
     then_gen (yield (generator_exp
                        (controlled_two_body_rotation two_body_coefficients time control_qubit
                           (rev (fst st))) [0..<n_qubits]))
       (\<lambda>_.
     controlled_two_body js s time control_qubit n_qubits
       (rev (fst st), basis_change_matrix)))))))"

definition controlled_trotter_step ::
  "low_rank_trotter_step \<Rightarrow> 'q list \<Rightarrow> real \<Rightarrow> 'q option \<Rightarrow> ('q op_tree, unit) gen" where
  "controlled_trotter_step s qubits time control_qubit =
     (let n_qubits = length qubits in
      then_gen (yield (SwapNetwork qubits
                         (Some (controlled_one_body_operation s time control_qubit)) True))
        (\<lambda>_.
      then_gen (yield (generator_exp
                         (controlled_one_body_rotation s time control_qubit (rev qubits))
                         [0..<n_qubits]))
        (\<lambda>_.
      then_gen (controlled_two_body [0..<length (eigenvalues s)] s time control_qubit n_qubits
                  (rev qubits, identity n_qubits))
        (\<lambda>st.
      then_gen (yield (BogoliubovTransform (fst st) (snd st)))
        (\<lambda>_.
      yield (Operation (GateOperation (RotZGate (- constant_term s * time))
                          [control_qubit])))))))"

definition controlled_step_qubit_permutation ::
  "low_rank_trotter_step \<Rightarrow> 'q list \<Rightarrow> 'q option \<Rightarrow> 'q list \<times> 'q option" where
  "controlled_step_qubit_permutation s qubits control_qubit =
     (if int (length (eigenvalues s)) AND 1 \<noteq> 0 then (qubits, control_qubit)
      else (rev qubits, control_qubit))"

definition controlled_finish ::
  "low_rank_trotter_step \<Rightarrow> 'q list \<Rightarrow> int \<Rightarrow> 'q option \<Rightarrow> bool \<Rightarrow> 'q op_tree list" where
  "controlled_finish s qubits n_steps control_qubit omit_final_swaps =
     (if \<not> omit_final_swaps then
        (if n_steps AND 1 \<noteq> 0 then
           SwapNetwork qubits None True #
           (if int (length (eigenvalues s)) AND 1 \<noteq> 0 then [SwapNetwork qubits None False]
            else [])
         else [])
      else [])"

subsection \<open>Objects and method calls\<close>

text \<open>
  A method call on a step object: dynamic dispatch on the class of the object. None of
  the methods assigns to an attribute of \<^verbatim>\<open>self\<close>, so the object after the call is
  the object before it; the call returns it with its result.
\<close>

datatype 'q method_call =
    TrotterStepCall "'q list" real "'q option"
  | StepQubitPermutationCall "'q list" "'q option"
  | FinishCall "'q list" int "'q option" bool

datatype 'q method_result =
    Emitted "('q op_tree, unit) gen"
  | Permutation "'q list \<times> 'q option"

fun call_method :: "step_object \<Rightarrow> 'q method_call \<Rightarrow> step_object \<times> 'q method_result" where
  "call_method (AsymmetricLowRankTrotterStep s) (TrotterStepCall qubits time control_qubit) =
     (AsymmetricLowRankTrotterStep s,
      Emitted (asymmetric_trotter_step s qubits time control_qubit))"
| "call_method (AsymmetricLowRankTrotterStep s) (StepQubitPermutationCall qubits control_qubit) =
     (AsymmetricLowRankTrotterStep s,
      Permutation (asymmetric_step_qubit_permutation s qubits control_qubit))"
| "call_method (AsymmetricLowRankTrotterStep s) (FinishCall qubits n_steps control_qubit omit) =
     (AsymmetricLowRankTrotterStep s,
      Emitted (asymmetric_finish s qubits n_steps control_qubit omit, Inr ()))"
| "call_method (ControlledAsymmetricLowRankTrotterStep s)
       (TrotterStepCall qubits time control_qubit) =
     (ControlledAsymmetricLowRankTrotterStep s,
      Emitted (controlled_trotter_step s qubits time control_qubit))"
| "call_method (ControlledAsymmetricLowRankTrotterStep s)
       (StepQubitPermutationCall qubits control_qubit) =
     (ControlledAsymmetricLowRankTrotterStep s,
      Permutation (controlled_step_qubit_permutation s qubits control_qubit))"
| "call_method (ControlledAsymmetricLowRankTrotterStep s)
       (FinishCall qubits n_steps control_qubit omit) =
     (ControlledAsymmetricLowRankTrotterStep s,
      Emitted (controlled_finish s qubits n_steps control_qubit omit, Inr ()))"

text \<open>The object after a sequence of calls, and the fields of an object.\<close>

definition call_methods :: "step_object \<Rightarrow> 'q method_call list \<Rightarrow> step_object" where
  "call_methods obj calls = fold (\<lambda>c obj'. fst (call_method obj' c)) calls obj"

fun fields :: "step_object \<Rightarrow> low_rank_trotter_step" where
  "fields (AsymmetricLowRankTrotterStep s) = s"
| "fields (ControlledAsymmetricLowRankTrotterStep s) = s"

text \<open>An array of \<open>r\<close> rows and \<open>c\<close> columns.\<close>

definition has_shape :: "'a ndarray \<Rightarrow> nat \<Rightarrow> nat \<Rightarrow> bool" where
  "has_shape A r c = (length A = r \<and> list_all (\<lambda>row. length row = c) A)"

text \<open>The matrices of the basis transformations among the emitted groups, in order.\<close>

fun basis_matrices :: "'q op_tree list \<Rightarrow> complex ndarray list" where
  "basis_matrices [] = []"
| "basis_matrices (BogoliubovTransform qubits M # ops) = M # basis_matrices ops"
| "basis_matrices (x # ops) = basis_matrices ops"

text \<open>
  The value of \<^verbatim>\<open>prior_basis_matrix\<close> at the start of iteration \<open>j\<close> of the loop of
  \<^verbatim>\<open>trotter_step\<close>, as the claims describe it: the identity before the first term,
  the basis change matrix of the term before otherwise.
\<close>

definition prior_basis_matrix :: "nat \<Rightarrow> complex ndarray list \<Rightarrow> nat \<Rightarrow> complex ndarray" where
  "prior_basis_matrix n Bs j = (if j = 0 then identity n else Bs ! (j - 1))"

section \<open>Properties\<close>

subsection \<open>Running a generator\<close>

lemma then_gen_Inr: "then_gen (xs, Inr a) k = (xs @ fst (k a), snd (k a))"
  by (simp add: then_gen_def split: prod.splits)

lemma then_gen_Inl: "then_gen (xs, Inl e) k = (xs, Inl e)"
  by (simp add: then_gen_def)

lemma then_gen_yield: "then_gen (yield x) k = (x # fst (k ()), snd (k ()))"
  by (simp add: yield_def then_gen_Inr)

lemma then_gen_evaluate:
  "then_gen (evaluate r) k = (case r of Inl e \<Rightarrow> ([], Inl e) | Inr a \<Rightarrow> k a)"
  by (cases r) (simp_all add: evaluate_def then_gen_Inr then_gen_Inl)

lemmas gen_simps = then_gen_yield then_gen_evaluate then_gen_Inr then_gen_Inl yield_def

lemmas array_simps = np_index_def wrap_index_def list_index_def np_dot_def conj_transpose_def
  identity_def nrows_def ncols_def

lemma upt_2: "[0..<2] = [0, Suc 0]"
  by (simp add: upt_conv_Cons numeral_2_eq_2)

lemma and_1_odd: "(k::int) AND 1 \<noteq> 0 \<longleftrightarrow> odd k"
  by (simp add: and_one_eq mod2_eq_if)

subsection \<open>The permutation of a step and the cleanup\<close>

text \<open>
  C2: \<^verbatim>\<open>step_qubit_permutation\<close>, of either class, returns the qubits in the order given
  when the number of eigenvalues J is odd and in reversed order when J is even.
\<close>

theorem step_qubit_permutation_parity:
  "fst (asymmetric_step_qubit_permutation s qubits c) =
     (if odd (length (eigenvalues s)) then qubits else rev qubits)
   \<and> fst (controlled_step_qubit_permutation s qubits c) =
     (if odd (length (eigenvalues s)) then qubits else rev qubits)"
  by (simp add: asymmetric_step_qubit_permutation_def controlled_step_qubit_permutation_def
        and_1_odd)

text \<open>
  C10: the control qubit component of the pair that \<^verbatim>\<open>step_qubit_permutation\<close> returns
  is \<^verbatim>\<open>None\<close> for the asymmetric step, whatever control qubit is supplied, and the
  supplied control qubit for the controlled step.
\<close>

theorem step_qubit_permutation_control:
  "snd (asymmetric_step_qubit_permutation s qubits c) = None
   \<and> snd (controlled_step_qubit_permutation s qubits c) = c"
  by (simp add: asymmetric_step_qubit_permutation_def controlled_step_qubit_permutation_def)

text \<open>
  C3: when \<^verbatim>\<open>n_steps\<close> is even or \<^verbatim>\<open>omit_final_swaps\<close> is true, \<^verbatim>\<open>finish\<close> of either
  class yields nothing.
\<close>

theorem finish_no_cleanup:
  "even n_steps \<or> omit_final_swaps \<Longrightarrow>
     asymmetric_finish s qubits n_steps c omit_final_swaps = []
     \<and> controlled_finish s qubits n_steps c omit_final_swaps = []"
  by (auto simp add: asymmetric_finish_def controlled_finish_def and_1_odd)

text \<open>The scenario of C3: two terms, two steps, the final swaps not omitted.\<close>

theorem finish_no_cleanup_witness:
  "(even (2::int) \<or> False)
   \<and> asymmetric_finish
      \<lparr>truncation_threshold = None, final_rank = None, eigenvalues = [1, 2],
        one_body_squares = [[[1]], [[1]]], one_body_coefficients = [[3]], constant_term = 5,
        scaled_density_density_matrices = [[[1]], [[2]]],
        basis_change_matrices = [[[1]], [[- 1]]]\<rparr>
      [0::nat, 1] 2 None False = []
   \<and> controlled_finish
      \<lparr>truncation_threshold = None, final_rank = None, eigenvalues = [1, 2],
        one_body_squares = [[[1]], [[1]]], one_body_coefficients = [[3]], constant_term = 5,
        scaled_density_density_matrices = [[[1]], [[2]]],
        basis_change_matrices = [[[1]], [[- 1]]]\<rparr>
      [0::nat, 1] 2 (Some 2) False = []"
  using finish_no_cleanup [of 2 False
      "\<lparr>truncation_threshold = None, final_rank = None, eigenvalues = [1, 2],
        one_body_squares = [[[1]], [[1]]], one_body_coefficients = [[3]], constant_term = 5,
        scaled_density_density_matrices = [[[1]], [[2]]],
        basis_change_matrices = [[[1]], [[- 1]]]\<rparr>"
      "[0::nat, 1]"]
  by simp

text \<open>
  C1, as the claim states it, fails: with two terms and one step \<^verbatim>\<open>finish\<close> yields the
  fermionic swap network alone, not two passes.
\<close>

theorem finish_two_terms_one_step:
  "asymmetric_finish
      \<lparr>truncation_threshold = None, final_rank = None, eigenvalues = [1, 2],
        one_body_squares = [[[1]], [[1]]], one_body_coefficients = [[3]], constant_term = 5,
        scaled_density_density_matrices = [[[1]], [[2]]],
        basis_change_matrices = [[[1]], [[- 1]]]\<rparr>
      [0::nat, 1] 1 None False = [SwapNetwork [0, 1] None True]"
  by (simp add: asymmetric_finish_def)

text \<open>
  C1, amended: when \<^verbatim>\<open>n_steps\<close> is odd and the final swaps are not omitted, \<^verbatim>\<open>finish\<close>
  of either class yields exactly one fermionic swap network, followed by exactly one
  more swap network, not fermionic, if and only if the number of eigenvalues J is odd.
\<close>

theorem finish_odd_steps:
  "odd n_steps \<Longrightarrow>
     asymmetric_finish s qubits n_steps c False =
       SwapNetwork qubits None True #
       (if odd (length (eigenvalues s)) then [SwapNetwork qubits None False] else [])
     \<and> controlled_finish s qubits n_steps c False =
       SwapNetwork qubits None True #
       (if odd (length (eigenvalues s)) then [SwapNetwork qubits None False] else [])"
  by (simp add: asymmetric_finish_def controlled_finish_def and_1_odd)

theorem finish_odd_steps_witness:
  "odd (3::int)
   \<and> asymmetric_finish
      \<lparr>truncation_threshold = None, final_rank = None, eigenvalues = [1, 2],
        one_body_squares = [[[1]], [[1]]], one_body_coefficients = [[3]], constant_term = 5,
        scaled_density_density_matrices = [[[1]], [[2]]],
        basis_change_matrices = [[[1]], [[- 1]]]\<rparr>
      [0::nat, 1] 3 None False = [SwapNetwork [0, 1] None True]
   \<and> controlled_finish
      \<lparr>truncation_threshold = None, final_rank = None, eigenvalues = [1, 2],
        one_body_squares = [[[1]], [[1]]], one_body_coefficients = [[3]], constant_term = 5,
        scaled_density_density_matrices = [[[1]], [[2]]],
        basis_change_matrices = [[[1]], [[- 1]]]\<rparr>
      [0::nat, 1] 3 (Some 2) False = [SwapNetwork [0, 1] None True]"
  using finish_odd_steps [of 3
      "\<lparr>truncation_threshold = None, final_rank = None, eigenvalues = [1, 2],
        one_body_squares = [[[1]], [[1]]], one_body_coefficients = [[3]], constant_term = 5,
        scaled_density_density_matrices = [[[1]], [[2]]],
        basis_change_matrices = [[[1]], [[- 1]]]\<rparr>"
      "[0::nat, 1]"]
  by simp

subsection \<open>The constructor\<close>

lemma init_fields:
  assumes "LowRankTrotterStep_init decompose prepare h threshold rank spin_basis = Inr s"
  shows "\<exists>k t1 t2 evs squares correction.
           h = InteractionOperator k t1 t2
           \<and> decompose t2 threshold rank spin_basis = Inr (evs, squares, correction)
           \<and> np_add t1 correction = Inr (one_body_coefficients s)
           \<and> constant_term s = k \<and> eigenvalues s = evs"
proof (cases h)
  case UnsupportedHamiltonian
  with assms show ?thesis
    by (simp add: LowRankTrotterStep_init_def two_body_tensor_def)
next
  case (InteractionOperator k t1 t2)
  with assms show ?thesis
    by (auto simp add: LowRankTrotterStep_init_def two_body_tensor_def one_body_tensor_def
          hamiltonian_constant_def split: sum.splits prod.splits)
qed

subsection \<open>The controlled step\<close>

text \<open>
  C5: for a controlled step built from a Hamiltonian, a call of \<^verbatim>\<open>trotter_step\<close> that
  runs to its end yields last, right after the final basis transformation, the Z
  rotation on the control qubit with angle \<open>- constant * time\<close>, where \<open>constant\<close> is
  the constant of the Hamiltonian, whatever the number of terms.
\<close>

theorem controlled_phase:
  assumes "LowRankTrotterStep_init decompose prepare h threshold rank spin_basis = Inr s"
    and "snd (controlled_trotter_step s qubits time c) = Inr ()"
  shows "\<exists>k t1 t2 groups qs M.
           h = InteractionOperator k t1 t2
           \<and> fst (controlled_trotter_step s qubits time c) =
               groups @ [BogoliubovTransform qs M,
                         Operation (GateOperation (RotZGate (- k * time)) [c])]"
proof -
  from init_fields [OF assms(1)] obtain k t1 t2
    where h: "h = InteractionOperator k t1 t2" and k: "constant_term s = k"
    by blast
  obtain xs st where
    loop: "controlled_two_body [0..<length (eigenvalues s)] s time c (length qubits)
             (rev qubits, identity (length qubits)) = (xs, st)"
    by (cases "controlled_two_body [0..<length (eigenvalues s)] s time c (length qubits)
             (rev qubits, identity (length qubits))")
  have "\<exists>groups qs M. fst (controlled_trotter_step s qubits time c) =
          groups @ [BogoliubovTransform qs M,
                    Operation (GateOperation (RotZGate (- k * time)) [c])]"
  proof (cases st)
    case (Inl e)
    with assms(2) loop show ?thesis
      by (simp add: controlled_trotter_step_def then_gen_yield then_gen_Inl)
  next
    case (Inr a)
    with loop k show ?thesis
      by (auto simp add: controlled_trotter_step_def then_gen_yield then_gen_Inr yield_def)
  qed
  with h show ?thesis by blast
qed

lemmas init_simps = LowRankTrotterStep_init_def two_body_tensor_def one_body_tensor_def
  hamiltonian_constant_def np_add_def broadcast_dim_def broadcast_get_def real_scaled_def

theorem controlled_phase_witness:
  "LowRankTrotterStep_init (\<lambda>t threshold rank spin_basis. Inr ([2], [[[1]]], [[1]]))
      (\<lambda>square. Inr ([[1]], [[1]])) (InteractionOperator 5 [[3]] []) None None True =
     Inr \<lparr>truncation_threshold = None, final_rank = None, eigenvalues = [2],
          one_body_squares = [[[1]]], one_body_coefficients = [[4]], constant_term = 5,
          scaled_density_density_matrices = [[[2]]], basis_change_matrices = [[[1]]]\<rparr>
   \<and> snd (controlled_trotter_step
        \<lparr>truncation_threshold = None, final_rank = None, eigenvalues = [2],
          one_body_squares = [[[1]]], one_body_coefficients = [[4]], constant_term = 5,
          scaled_density_density_matrices = [[[2]]], basis_change_matrices = [[[1]]]\<rparr>
        [0::nat] 1 (Some 7)) = Inr ()
   \<and> (\<exists>k t1 t2 groups qs M.
         InteractionOperator 5 [[3]] [] = InteractionOperator k t1 t2
         \<and> fst (controlled_trotter_step
              \<lparr>truncation_threshold = None, final_rank = None, eigenvalues = [2],
                one_body_squares = [[[1]]], one_body_coefficients = [[4]], constant_term = 5,
                scaled_density_density_matrices = [[[2]]], basis_change_matrices = [[[1]]]\<rparr>
              [0::nat] 1 (Some 7)) =
             groups @ [BogoliubovTransform qs M,
                       Operation (GateOperation (RotZGate (- k * 1)) [Some 7])])"
proof -
  let ?s = "\<lparr>truncation_threshold = None, final_rank = None, eigenvalues = [2],
          one_body_squares = [[[1]]], one_body_coefficients = [[4]], constant_term = 5,
          scaled_density_density_matrices = [[[2]]], basis_change_matrices = [[[1::complex]]]\<rparr>"
  have i: "LowRankTrotterStep_init (\<lambda>t threshold rank spin_basis. Inr ([2], [[[1]]], [[1]]))
      (\<lambda>square. Inr ([[1]], [[1]])) (InteractionOperator 5 [[3]] []) None None True = Inr ?s"
    by (simp add: init_simps array_simps)
  have c: "snd (controlled_trotter_step ?s [0::nat] 1 (Some 7)) = Inr ()"
    by (simp add: controlled_trotter_step_def gen_simps array_simps)
  show ?thesis
    by (intro conjI i c controlled_phase [OF i c])
qed

subsection \<open>The basis changes of the asymmetric step\<close>

lemma basis_matrices_append:
  "basis_matrices (xs @ ys) = basis_matrices xs @ basis_matrices ys"
  by (induction xs rule: basis_matrices.induct) simp_all

lemma basis_matrices_rotations:
  "basis_matrices (fst (yield_each (two_body_rotation T time qs) ps)) = []"
proof (induction ps)
  case Nil
  show ?case by simp
next
  case (Cons p ps)
  then show ?case
    by (simp add: then_gen_evaluate then_gen_yield two_body_rotation_def split: sum.splits)
qed

lemma basis_matrices_one_body_rotations:
  "basis_matrices (fst (yield_each (one_body_rotation s time qs) ps)) = []"
proof (induction ps)
  case Nil
  show ?case by simp
next
  case (Cons p ps)
  then show ?case
    by (simp add: then_gen_evaluate then_gen_yield one_body_rotation_def split: sum.splits)
qed

lemma two_body_basis_matrices:
  "asymmetric_two_body [k..<J] s time n (qs, prior_basis_matrix m (basis_change_matrices s) k)
      = (ops, Inr st) \<Longrightarrow>
   map Inr (basis_matrices ops) =
     map (\<lambda>j. np_dot (prior_basis_matrix m (basis_change_matrices s) j)
                 (conj_transpose (basis_change_matrices s ! j))) [k..<J]
   \<and> (k \<le> J \<longrightarrow> snd st = prior_basis_matrix m (basis_change_matrices s) J)"
proof (induction "J - k" arbitrary: k qs ops)
  case 0
  then show ?case by auto
next
  case (Suc d)
  then have kJ: "k < J" and d: "d = J - Suc k" by auto
  let ?Bs = "basis_change_matrices s"
  let ?P = "prior_basis_matrix m ?Bs k"
  from Suc.prems kJ obtain T where T: "list_index (scaled_density_density_matrices s) k = Inr T"
    by (cases "list_index (scaled_density_density_matrices s) k")
       (simp_all add: upt_conv_Cons then_gen_evaluate)
  from Suc.prems kJ T obtain B where B: "list_index ?Bs k = Inr B"
    by (cases "list_index ?Bs k") (simp_all add: upt_conv_Cons then_gen_evaluate)
  from Suc.prems kJ T B obtain M where M: "np_dot ?P (conj_transpose B) = Inr M"
    by (cases "np_dot ?P (conj_transpose B)") (simp_all add: upt_conv_Cons then_gen_evaluate)
  from B have Bk: "B = ?Bs ! k"
    by (auto simp add: list_index_def split: if_splits)
  have next_prior: "B = prior_basis_matrix m ?Bs (Suc k)"
    by (simp add: prior_basis_matrix_def Bk)
  obtain rs r where R: "yield_each (two_body_rotation T time (rev qs)) [0..<n] = (rs, r)"
    by (cases "yield_each (two_body_rotation T time (rev qs)) [0..<n]")
  have rs: "basis_matrices rs = []"
    using basis_matrices_rotations [of T time "rev qs" "[0..<n]"] R by simp
  from Suc.prems kJ T B M R obtain u where r: "r = Inr u"
    by (cases r) (simp_all add: upt_conv_Cons then_gen_evaluate then_gen_yield then_gen_Inl)
  obtain ops' where rest:
    "asymmetric_two_body [Suc k..<J] s time n (rev qs, prior_basis_matrix m ?Bs (Suc k))
       = (ops', Inr st)"
    and ops: "ops = BogoliubovTransform qs M
                # SwapNetwork qs (Some (two_body_operation T time)) False # rs @ ops'"
    using Suc.prems kJ T B M R r next_prior
    by (cases "asymmetric_two_body [Suc k..<J] s time n (rev qs, prior_basis_matrix m ?Bs (Suc k))")
       (simp add: upt_conv_Cons then_gen_evaluate then_gen_yield then_gen_Inr)
  from Suc.hyps(1) [OF d rest] kJ
  have IH: "map Inr (basis_matrices ops') =
     map (\<lambda>j. np_dot (prior_basis_matrix m ?Bs j) (conj_transpose (?Bs ! j))) [Suc k..<J]"
    and fin: "snd st = prior_basis_matrix m ?Bs J"
    by auto
  show ?case
    using kJ IH fin M Bk by (simp add: ops rs basis_matrices_append upt_conv_Cons)
qed

text \<open>
  C4: in a call of \<^verbatim>\<open>trotter_step\<close> that runs to its end, the basis transformations
  yielded are, in order, one per term \<open>j\<close>, with the product of the prior basis matrix
  (the identity before term 0, the basis change matrix of term \<open>j - 1\<close> after it) and
  the conjugate transpose of the basis change matrix of term \<open>j\<close>, and then exactly one
  more, with the last prior basis matrix.
\<close>

theorem trotter_step_basis_changes:
  assumes "snd (asymmetric_trotter_step s qubits time c) = Inr ()"
  shows "map Inr (basis_matrices (fst (asymmetric_trotter_step s qubits time c))) =
     map (\<lambda>j. np_dot (prior_basis_matrix (length qubits) (basis_change_matrices s) j)
                 (conj_transpose (basis_change_matrices s ! j))) [0..<length (eigenvalues s)]
     @ [Inr (prior_basis_matrix (length qubits) (basis_change_matrices s)
               (length (eigenvalues s)))]"
proof -
  let ?n = "length qubits"
  let ?Bs = "basis_change_matrices s"
  let ?J = "length (eigenvalues s)"
  obtain rs r where R: "yield_each (one_body_rotation s time (rev qubits)) [0..<?n] = (rs, r)"
    by (cases "yield_each (one_body_rotation s time (rev qubits)) [0..<?n]")
  have rs: "basis_matrices rs = []"
    using basis_matrices_one_body_rotations [of s time "rev qubits" "[0..<?n]"] R by simp
  from assms R obtain u where r: "r = Inr u"
    by (cases r) (simp_all add: asymmetric_trotter_step_def then_gen_yield then_gen_Inl)
  obtain xs st where L: "asymmetric_two_body [0..<?J] s time ?n
       (rev qubits, prior_basis_matrix ?n ?Bs 0) = (xs, st)"
    by (cases "asymmetric_two_body [0..<?J] s time ?n (rev qubits, prior_basis_matrix ?n ?Bs 0)")
  have p0: "prior_basis_matrix ?n ?Bs 0 = identity ?n"
    by (simp add: prior_basis_matrix_def)
  from assms R r L obtain st' where st: "st = Inr st'"
    by (cases st)
       (simp_all add: asymmetric_trotter_step_def then_gen_yield then_gen_Inl then_gen_Inr p0)
  from R r L st have ops:
    "fst (asymmetric_trotter_step s qubits time c) =
       SwapNetwork qubits (Some (one_body_operation s time)) True # rs @ xs
             @ [BogoliubovTransform (fst st') (snd st')]"
    by (simp add: asymmetric_trotter_step_def then_gen_yield then_gen_Inr p0 yield_def)
  from two_body_basis_matrices [OF L [unfolded st]]
  have "map Inr (basis_matrices xs) =
     map (\<lambda>j. np_dot (prior_basis_matrix ?n ?Bs j) (conj_transpose (?Bs ! j))) [0..<?J]"
    and "snd st' = prior_basis_matrix ?n ?Bs ?J"
    by auto
  then show ?thesis
    by (simp add: ops rs basis_matrices_append)
qed

theorem trotter_step_basis_changes_witness:
  "snd (asymmetric_trotter_step
      \<lparr>truncation_threshold = None, final_rank = None, eigenvalues = [1, 2],
        one_body_squares = [[[1]], [[1]]], one_body_coefficients = [[3]], constant_term = 5,
        scaled_density_density_matrices = [[[1]], [[2]]],
        basis_change_matrices = [[[\<i>]], [[- 1]]]\<rparr>
      [0::nat] 1 None) = Inr ()
   \<and> basis_matrices (fst (asymmetric_trotter_step
      \<lparr>truncation_threshold = None, final_rank = None, eigenvalues = [1, 2],
        one_body_squares = [[[1]], [[1]]], one_body_coefficients = [[3]], constant_term = 5,
        scaled_density_density_matrices = [[[1]], [[2]]],
        basis_change_matrices = [[[\<i>]], [[- 1]]]\<rparr>
      [0::nat] 1 None)) = [[[- \<i>]], [[- \<i>]], [[- 1]]]"
proof -
  let ?s = "\<lparr>truncation_threshold = None, final_rank = None, eigenvalues = [1, 2],
        one_body_squares = [[[1]], [[1]]], one_body_coefficients = [[3]], constant_term = 5,
        scaled_density_density_matrices = [[[1]], [[2]]],
        basis_change_matrices = [[[\<i>]], [[- 1]]]\<rparr>"
  have c: "snd (asymmetric_trotter_step ?s [0::nat] 1 None) = Inr ()"
    by (simp add: asymmetric_trotter_step_def gen_simps array_simps upt_2
          one_body_rotation_def two_body_rotation_def)
  have "map (Inr :: complex ndarray \<Rightarrow> error + complex ndarray)
            (basis_matrices (fst (asymmetric_trotter_step ?s [0::nat] 1 None))) =
          map Inr [[[- \<i>]], [[- \<i>]], [[- 1]]]"
    using trotter_step_basis_changes [OF c]
    by (simp add: prior_basis_matrix_def array_simps upt_2)
  then have "basis_matrices (fst (asymmetric_trotter_step ?s [0::nat] 1 None)) =
          [[[- \<i>]], [[- \<i>]], [[- 1]]]"
    by (simp only: inj_map_eq_map [OF inj_Inr])
  with c show ?thesis by (intro conjI)
qed

subsection \<open>Two qubits and one term\<close>

lemma has_shape_2_2: "has_shape A 2 2 \<Longrightarrow> \<exists>w x y z. A = [[w, x], [y, z]]"
  by (auto simp add: has_shape_def numeral_2_eq_2 length_Suc_conv)

text \<open>
  C7: for an asymmetric step with one term whose arrays are 2 by 2, \<^verbatim>\<open>trotter_step\<close>
  on two qubits runs to its end and yields exactly eight groups, in this order: the
  fermionic swap network, two Z rotations of the diagonal one-body terms, a basis
  transformation, the swap network of the two-body terms, two Z rotations of the
  diagonal two-body terms, and the final basis transformation; this holds for all
  values of the coefficients and of the time.
\<close>

theorem trotter_step_two_qubits_one_term:
  assumes "length (eigenvalues s) = 1"
    and "has_shape (one_body_coefficients s) 2 2"
    and "scaled_density_density_matrices s = [T]" and "has_shape T 2 2"
    and "basis_change_matrices s = [B]" and "has_shape B 2 2"
  shows "\<exists>M. np_dot (identity 2) (conj_transpose B) = Inr M
     \<and> asymmetric_trotter_step s [a, b] time c =
        ([SwapNetwork [a, b] (Some (one_body_operation s time)) True,
          Operation (GateOperation
            (RotZGate (- Re (one_body_coefficients s ! 0 ! 0) * time)) [Some b]),
          Operation (GateOperation
            (RotZGate (- Re (one_body_coefficients s ! 1 ! 1) * time)) [Some a]),
          BogoliubovTransform [b, a] M,
          SwapNetwork [b, a] (Some (two_body_operation T time)) False,
          Operation (GateOperation (RotZGate (- (T ! 0 ! 0) * time)) [Some a]),
          Operation (GateOperation (RotZGate (- (T ! 1 ! 1) * time)) [Some b]),
          BogoliubovTransform [a, b] B],
         Inr ())"
proof -
  from has_shape_2_2 [OF assms(2)] obtain w x y z
    where C: "one_body_coefficients s = [[w, x], [y, z]]" by blast
  from has_shape_2_2 [OF assms(4)] obtain w' x' y' z'
    where T: "T = [[w', x'], [y', z']]" by blast
  from has_shape_2_2 [OF assms(6)] obtain w'' x'' y'' z''
    where B: "B = [[w'', x''], [y'', z'']]" by blast
  have dot: "np_dot (identity 2) (conj_transpose B) =
      Inr [[cnj w'', cnj y''], [cnj x'', cnj z'']]"
    by (simp add: B array_simps upt_2 transpose.simps)
  have dot': "np_dot (identity (Suc (Suc 0))) (conj_transpose B) =
      Inr [[cnj w'', cnj y''], [cnj x'', cnj z'']]"
    using dot by (simp add: numeral_2_eq_2)
  have run: "asymmetric_trotter_step s [a, b] time c =
        ([SwapNetwork [a, b] (Some (one_body_operation s time)) True,
          Operation (GateOperation (RotZGate (- Re w * time)) [Some b]),
          Operation (GateOperation (RotZGate (- Re z * time)) [Some a]),
          BogoliubovTransform [b, a] [[cnj w'', cnj y''], [cnj x'', cnj z'']],
          SwapNetwork [b, a] (Some (two_body_operation T time)) False,
          Operation (GateOperation (RotZGate (- w' * time)) [Some a]),
          Operation (GateOperation (RotZGate (- z' * time)) [Some b]),
          BogoliubovTransform [a, b] B],
         Inr ())"
    using dot'
    by (simp add: asymmetric_trotter_step_def assms(1,3,5) C gen_simps upt_2
          one_body_rotation_def two_body_rotation_def np_index_def wrap_index_def
          list_index_def T)
  show ?thesis
    using dot run by (simp add: C T)
qed

theorem trotter_step_two_qubits_one_term_witness:
  "has_shape [[1, 2], [2, 3 :: complex]] 2 2
   \<and> has_shape [[4, 6], [6, 8 :: real]] 2 2
   \<and> has_shape [[0, \<i>], [1, 0]] 2 2
   \<and> asymmetric_trotter_step
      \<lparr>truncation_threshold = None, final_rank = None, eigenvalues = [2],
        one_body_squares = [[[0, 1], [1, 0]]],
        one_body_coefficients = [[1, 2], [2, 3]], constant_term = 5,
        scaled_density_density_matrices = [[[4, 6], [6, 8]]],
        basis_change_matrices = [[[0, \<i>], [1, 0]]]\<rparr>
      [10::nat, 11] 1 None =
     ([SwapNetwork [10, 11] (Some (one_body_operation
         \<lparr>truncation_threshold = None, final_rank = None, eigenvalues = [2],
        one_body_squares = [[[0, 1], [1, 0]]],
        one_body_coefficients = [[1, 2], [2, 3]], constant_term = 5,
        scaled_density_density_matrices = [[[4, 6], [6, 8]]],
        basis_change_matrices = [[[0, \<i>], [1, 0]]]\<rparr> 1)) True,
       Operation (GateOperation (RotZGate (- 1)) [Some 11]),
       Operation (GateOperation (RotZGate (- 3)) [Some 10]),
       BogoliubovTransform [11, 10] [[0, 1], [- \<i>, 0]],
       SwapNetwork [11, 10] (Some (two_body_operation [[4, 6], [6, 8]] 1)) False,
       Operation (GateOperation (RotZGate (- 4)) [Some 10]),
       Operation (GateOperation (RotZGate (- 8)) [Some 11]),
       BogoliubovTransform [10, 11] [[0, \<i>], [1, 0]]],
      Inr ())"
  using trotter_step_two_qubits_one_term [of
      "\<lparr>truncation_threshold = None, final_rank = None, eigenvalues = [2],
        one_body_squares = [[[0, 1], [1, 0]]],
        one_body_coefficients = [[1, 2], [2, 3]], constant_term = 5,
        scaled_density_density_matrices = [[[4, 6], [6, 8]]],
        basis_change_matrices = [[[0, \<i>], [1, 0]]]\<rparr>"
      "[[4, 6], [6, 8]]" "[[0, \<i>], [1, 0]]" "10::nat" 11 1 None]
  by (simp add: has_shape_def array_simps upt_2)

subsection \<open>The controlled step without a control qubit\<close>

text \<open>
  Whether the loop of the controlled step raises, and how many groups it yields, does
  not depend on the control qubit.
\<close>

lemma controlled_two_body_control:
  "snd (controlled_two_body js s time c n st) = snd (controlled_two_body js s time c' n st)
   \<and> length (fst (controlled_two_body js s time c n st)) =
       length (fst (controlled_two_body js s time c' n st))"
proof (induction js arbitrary: st)
  case Nil
  show ?case by simp
next
  case (Cons j js)
  show ?case
  proof (cases "list_index (scaled_density_density_matrices s) j")
    case (Inl e)
    then show ?thesis by (simp add: then_gen_evaluate)
  next
    case T: (Inr T)
    show ?thesis
    proof (cases "list_index (basis_change_matrices s) j")
      case (Inl e)
      with T show ?thesis by (simp add: then_gen_evaluate)
    next
      case B: (Inr B)
      show ?thesis
      proof (cases "np_dot (snd st) (conj_transpose B)")
        case (Inl e)
        with T B show ?thesis by (simp add: then_gen_evaluate)
      next
        case (Inr M)
        with T B Cons.IH [of "(rev (fst st), B)"] show ?thesis
          by (simp add: then_gen_evaluate then_gen_yield)
      qed
    qed
  qed
qed

text \<open>
  C9, amended: \<^verbatim>\<open>trotter_step\<close> of the controlled step makes no check of the control
  qubit. Called with \<^verbatim>\<open>control_qubit=None\<close> it yields first the fermionic swap network,
  whose operation function puts \<^verbatim>\<open>None\<close> in the control position; it raises exactly when
  the same call with a control qubit raises, and yields as many groups.
\<close>

theorem controlled_trotter_step_without_control:
  "(\<exists>groups. fst (controlled_trotter_step s qubits time None) =
       SwapNetwork qubits (Some (controlled_one_body_operation s time None)) True # groups)
   \<and> snd (controlled_trotter_step s qubits time None) =
       snd (controlled_trotter_step s qubits time c)
   \<and> length (fst (controlled_trotter_step s qubits time None)) =
       length (fst (controlled_trotter_step s qubits time c))"
proof -
  let ?L = "\<lambda>c. controlled_two_body [0..<length (eigenvalues s)] s time c (length qubits)
             (rev qubits, identity (length qubits))"
  from controlled_two_body_control [of "[0..<length (eigenvalues s)]" s time None
      "length qubits" "(rev qubits, identity (length qubits))" c]
  have sn: "snd (?L None) = snd (?L c)" and ln: "length (fst (?L None)) = length (fst (?L c))"
    by auto
  have run: "\<And>c. controlled_trotter_step s qubits time c =
      then_gen (yield (SwapNetwork qubits
                         (Some (controlled_one_body_operation s time c)) True))
        (\<lambda>_. then_gen (yield (generator_exp
                         (controlled_one_body_rotation s time c (rev qubits))
                         [0..<length qubits]))
        (\<lambda>_. then_gen (fst (?L c), snd (?L c))
        (\<lambda>st. then_gen (yield (BogoliubovTransform (fst st) (snd st)))
        (\<lambda>_. yield (Operation (GateOperation (RotZGate (- constant_term s * time)) [c]))))))"
    by (simp add: controlled_trotter_step_def Let_def)
  show ?thesis
  proof (cases "snd (?L c)")
    case (Inl e)
    with sn ln show ?thesis
      by (simp add: run then_gen_yield then_gen_Inl)
  next
    case (Inr st)
    with sn ln show ?thesis
      by (simp add: run then_gen_yield then_gen_Inr yield_def)
  qed
qed

text \<open>
  C9, as the claim states it, fails: a call without a control qubit runs to its end and
  yields seven groups, with \<^verbatim>\<open>None\<close> as the control qubit of the operations.
\<close>

theorem controlled_trotter_step_none_runs:
  "controlled_trotter_step
      \<lparr>truncation_threshold = None, final_rank = None, eigenvalues = [2],
        one_body_squares = [[[1]]], one_body_coefficients = [[4]], constant_term = 5,
        scaled_density_density_matrices = [[[2]]], basis_change_matrices = [[[1]]]\<rparr>
      [0::nat] 1 None =
     ([SwapNetwork [0] (Some (controlled_one_body_operation
         \<lparr>truncation_threshold = None, final_rank = None, eigenvalues = [2],
           one_body_squares = [[[1]]], one_body_coefficients = [[4]], constant_term = 5,
           scaled_density_density_matrices = [[[2]]], basis_change_matrices = [[[1]]]\<rparr>
         1 None)) True,
       GeneratorExp [GateOperation (Rot11Gate (- 4)) [None, Some 0]] None,
       BogoliubovTransform [0] [[1]],
       SwapNetwork [0] (Some (controlled_two_body_operation [[2]] 1 None)) False,
       GeneratorExp [GateOperation (Rot11Gate (- 2)) [None, Some 0]] None,
       BogoliubovTransform [0] [[1]],
       Operation (GateOperation (RotZGate (- 5)) [None])],
      Inr ())"
  by (simp add: controlled_trotter_step_def gen_simps array_simps generator_exp_def
        controlled_one_body_rotation_def controlled_two_body_rotation_def)

subsection \<open>The effective one-body coefficients\<close>

lemma call_method_fields: "fields (fst (call_method obj call)) = fields obj"
  by (cases obj; cases call) simp_all

lemma call_methods_fields: "fields (call_methods obj calls) = fields obj"
  unfolding call_methods_def
  by (induction calls arbitrary: obj) (simp_all add: call_method_fields)

text \<open>On arrays of one shape nothing is broadcast: the sum is taken entry by entry.\<close>

lemma np_add_same_shape:
  assumes "has_shape A r c" and "has_shape B r c"
  shows "np_add A B = Inr (map2 (map2 (+)) A B)"
proof -
  have lA: "length A = r" and lB: "length B = r"
    and rA: "\<And>i. i < r \<Longrightarrow> length (A ! i) = c" and rB: "\<And>i. i < r \<Longrightarrow> length (B ! i) = c"
    using assms by (auto simp add: has_shape_def list_all_length)
  have cols: "ncols A = ncols B"
    using lA lB rA [of 0] rB [of 0]
    by (cases A; cases B) (auto simp add: ncols_def)
  have colsA: "r \<noteq> 0 \<Longrightarrow> ncols A = c"
    using lA rA [of 0] by (cases A) (auto simp add: ncols_def)
  have entry: "\<And>i j. i < r \<Longrightarrow> j < c \<Longrightarrow>
      broadcast_get A i j + broadcast_get B i j = A ! i ! j + B ! i ! j"
    using lA lB cols colsA by (auto simp add: broadcast_get_def nrows_def)
  have row: "\<And>i. i < r \<Longrightarrow>
      map (\<lambda>j. broadcast_get A i j + broadcast_get B i j) [0..<ncols A] =
      map2 (+) (A ! i) (B ! i)"
    using colsA rA rB entry
    by (intro nth_equalityI) auto
  have "map (\<lambda>i. map (\<lambda>j. broadcast_get A i j + broadcast_get B i j) [0..<ncols A]) [0..<r]
        = map2 (map2 (+)) A B"
    using lA lB row by (intro nth_equalityI) auto
  then show ?thesis
    using lA lB cols by (simp add: np_add_def broadcast_dim_def nrows_def)
qed

text \<open>
  C6: when the constructor accepts a Hamiltonian, the Hamiltonian is an interaction
  operator, the decomposition returned a correction, and the stored one-body
  coefficients are the numpy sum of the one-body tensor and the correction (the sum
  entry by entry when both have one shape); no sequence of calls of \<^verbatim>\<open>trotter_step\<close>,
  \<^verbatim>\<open>step_qubit_permutation\<close> and \<^verbatim>\<open>finish\<close>, on a step of either class, changes them.
\<close>

theorem one_body_coefficients_fixed:
  assumes "LowRankTrotterStep_init decompose prepare h threshold rank spin_basis = Inr s"
  shows "\<exists>k t1 t2 evs squares correction.
           h = InteractionOperator k t1 t2
           \<and> decompose t2 threshold rank spin_basis = Inr (evs, squares, correction)
           \<and> np_add t1 correction = Inr (one_body_coefficients s)
           \<and> (\<forall>r c. has_shape t1 r c \<and> has_shape correction r c \<longrightarrow>
                 one_body_coefficients s = map2 (map2 (+)) t1 correction)
           \<and> (\<forall>calls :: 'q method_call list.
                 one_body_coefficients
                   (fields (call_methods (AsymmetricLowRankTrotterStep s) calls))
                   = one_body_coefficients s
                 \<and> one_body_coefficients
                   (fields (call_methods (ControlledAsymmetricLowRankTrotterStep s) calls))
                   = one_body_coefficients s)"
proof -
  from init_fields [OF assms] obtain k t1 t2 evs squares correction
    where h: "h = InteractionOperator k t1 t2"
      and d: "decompose t2 threshold rank spin_basis = Inr (evs, squares, correction)"
      and a: "np_add t1 correction = Inr (one_body_coefficients s)"
    by blast
  have e: "\<forall>r c. has_shape t1 r c \<and> has_shape correction r c \<longrightarrow>
      one_body_coefficients s = map2 (map2 (+)) t1 correction"
  proof (intro allI impI)
    fix r c
    assume "has_shape t1 r c \<and> has_shape correction r c"
    then have "np_add t1 correction = Inr (map2 (map2 (+)) t1 correction)"
      by (blast intro: np_add_same_shape)
    with a show "one_body_coefficients s = map2 (map2 (+)) t1 correction"
      by simp
  qed
  have f: "\<forall>calls :: 'q method_call list.
                 one_body_coefficients
                   (fields (call_methods (AsymmetricLowRankTrotterStep s) calls))
                   = one_body_coefficients s
                 \<and> one_body_coefficients
                   (fields (call_methods (ControlledAsymmetricLowRankTrotterStep s) calls))
                   = one_body_coefficients s"
    by (simp add: call_methods_fields)
  from h d a e f show ?thesis
    by (intro exI conjI)
qed

theorem one_body_coefficients_fixed_witness:
  "LowRankTrotterStep_init (\<lambda>t threshold rank spin_basis. Inr ([2], [[[0, 1], [1, 0]]], [[1, 0], [0, 1]]))
      (\<lambda>square. Inr ([[1, 0], [0, 1]], [[1, 0], [0, 1]])) (InteractionOperator 5 [[1, \<i>], [- \<i>, 2]] []) None None True =
     Inr \<lparr>truncation_threshold = None, final_rank = None, eigenvalues = [2],
          one_body_squares = [[[0, 1], [1, 0]]],
          one_body_coefficients = [[2, \<i>], [- \<i>, 3]], constant_term = 5,
          scaled_density_density_matrices = [[[2, 0], [0, 2]]],
          basis_change_matrices = [[[1, 0], [0, 1]]]\<rparr>
   \<and> np_add [[1, \<i>], [- \<i>, 2]] [[1, 0], [0, 1]] = Inr [[2, \<i>], [- \<i>, 3]]
   \<and> one_body_coefficients (fields (call_methods
        (AsymmetricLowRankTrotterStep
          \<lparr>truncation_threshold = None, final_rank = None, eigenvalues = [2],
          one_body_squares = [[[0, 1], [1, 0]]],
          one_body_coefficients = [[2, \<i>], [- \<i>, 3]], constant_term = 5,
          scaled_density_density_matrices = [[[2, 0], [0, 2]]],
          basis_change_matrices = [[[1, 0], [0, 1]]]\<rparr>)
        [TrotterStepCall [0::nat, 1] 1 None, StepQubitPermutationCall [0, 1] None,
         FinishCall [0, 1] 1 None False])) = [[2, \<i>], [- \<i>, 3]]"
proof -
  let ?s = "\<lparr>truncation_threshold = None, final_rank = None, eigenvalues = [2],
          one_body_squares = [[[0, 1], [1, 0]]],
          one_body_coefficients = [[2, \<i>], [- \<i>, 3]], constant_term = 5,
          scaled_density_density_matrices = [[[2, 0], [0, 2]]],
          basis_change_matrices = [[[1, 0], [0, 1]]]\<rparr>"
  have i: "LowRankTrotterStep_init (\<lambda>t threshold rank spin_basis. Inr ([2], [[[0, 1], [1, 0]]], [[1, 0], [0, 1]]))
      (\<lambda>square. Inr ([[1, 0], [0, 1]], [[1, 0], [0, 1]])) (InteractionOperator 5 [[1, \<i>], [- \<i>, 2]] []) None None True = Inr ?s"
    by (simp add: init_simps array_simps upt_2)
  from one_body_coefficients_fixed [where ?'q = nat, OF i]
  obtain k t1 t2 evs squares correction
    where h: "(InteractionOperator 5 [[1, \<i>], [- \<i>, 2]] []) = InteractionOperator k t1 t2"
      and d: "(\<lambda>t threshold rank spin_basis. Inr ([2], [[[0, 1], [1, 0]]], [[1, 0], [0, 1]])) t2 None None True = Inr (evs, squares, correction)"
      and a: "np_add t1 correction = Inr (one_body_coefficients ?s)"
      and f: "\<forall>calls :: nat method_call list.
                 one_body_coefficients
                   (fields (call_methods (AsymmetricLowRankTrotterStep ?s) calls))
                   = one_body_coefficients ?s
                 \<and> one_body_coefficients
                   (fields (call_methods (ControlledAsymmetricLowRankTrotterStep ?s) calls))
                   = one_body_coefficients ?s"
    by blast
  from h d a have sum: "np_add [[1, \<i>], [- \<i>, 2]] [[1, 0], [0, 1]] = Inr [[2, \<i>], [- \<i>, 3]]"
    by simp
  from f have "one_body_coefficients (fields (call_methods (AsymmetricLowRankTrotterStep ?s)
        [TrotterStepCall [0::nat, 1] 1 None, StepQubitPermutationCall [0, 1] None,
         FinishCall [0, 1] 1 None False])) = one_body_coefficients ?s"
    by blast
  then have calls: "one_body_coefficients (fields (call_methods
        (AsymmetricLowRankTrotterStep ?s)
        [TrotterStepCall [0::nat, 1] 1 None, StepQubitPermutationCall [0, 1] None,
         FinishCall [0, 1] 1 None False])) = [[2, \<i>], [- \<i>, 3]]"
    by simp
  show ?thesis
    by (intro conjI i sum calls)
qed

subsection \<open>The factories\<close>

text \<open>
  C8, amended: the factories \<^verbatim>\<open>asymmetric\<close> and \<^verbatim>\<open>controlled_asymmetric\<close> make no check
  of the type of the Hamiltonian and never return \<^verbatim>\<open>None\<close>: they call the constructor
  of the step and return the step or raise what the constructor raises. For a
  Hamiltonian that is not an interaction operator the constructor raises
  \<^verbatim>\<open>AttributeError\<close>.
\<close>

theorem factories_never_not_applicable:
  "asymmetric decompose prepare alg h \<noteq> Inr None
   \<and> controlled_asymmetric decompose prepare alg h \<noteq> Inr None
   \<and> asymmetric decompose prepare alg UnsupportedHamiltonian = Inl AttributeError
   \<and> controlled_asymmetric decompose prepare alg UnsupportedHamiltonian = Inl AttributeError"
  by (simp add: asymmetric_def controlled_asymmetric_def LowRankTrotterStep_init_def
        two_body_tensor_def split: sum.splits)

text \<open>
  C8, as the claim states it, fails: on a Hamiltonian of an unsupported type both
  factories raise, and on an interaction operator with coefficients that are not real
  the factory returns a step.
\<close>

theorem factories_on_unsupported:
  "asymmetric (\<lambda>t threshold rank spin_basis. Inr ([2], [[[0, 1], [1, 0]]], [[1, 0], [0, 1]]))
      (\<lambda>square. Inr ([[1, 0], [0, 1]], [[1, 0], [0, 1]]))
      \<lparr>algorithm_truncation_threshold = None, algorithm_final_rank = None,
        algorithm_spin_basis = True\<rparr> UnsupportedHamiltonian = Inl AttributeError
   \<and> controlled_asymmetric (\<lambda>t threshold rank spin_basis. Inr ([2], [[[0, 1], [1, 0]]], [[1, 0], [0, 1]]))
      (\<lambda>square. Inr ([[1, 0], [0, 1]], [[1, 0], [0, 1]]))
      \<lparr>algorithm_truncation_threshold = None, algorithm_final_rank = None,
        algorithm_spin_basis = True\<rparr> UnsupportedHamiltonian = Inl AttributeError
   \<and> asymmetric (\<lambda>t threshold rank spin_basis. Inr ([2], [[[0, 1], [1, 0]]], [[1, 0], [0, 1]]))
      (\<lambda>square. Inr ([[1, 0], [0, 1]], [[1, 0], [0, 1]]))
      \<lparr>algorithm_truncation_threshold = None, algorithm_final_rank = None,
        algorithm_spin_basis = True\<rparr> (InteractionOperator 5 [[1, \<i>], [- \<i>, 2]] []) =
     Inr (Some (AsymmetricLowRankTrotterStep
       \<lparr>truncation_threshold = None, final_rank = None, eigenvalues = [2],
          one_body_squares = [[[0, 1], [1, 0]]],
          one_body_coefficients = [[2, \<i>], [- \<i>, 3]], constant_term = 5,
          scaled_density_density_matrices = [[[2, 0], [0, 2]]],
          basis_change_matrices = [[[1, 0], [0, 1]]]\<rparr>))"
  by (simp add: asymmetric_def controlled_asymmetric_def init_simps array_simps upt_2)

end
